theory Spec2Isabelle
  imports Main
begin

section \<open>Values of the platform\<close>

text \<open>
  The program is a React front end written in TypeScript. Its own code is embedded
  function by function; what it calls from the platform (\<open>JSON.parse\<close>,
  \<open>JSON.stringify\<close>, \<open>String.prototype.toLowerCase\<close>, \<open>fetch\<close>, the clock)
  is passed to the embedded functions as a parameter, so that a theorem holds for every
  behaviour of the platform. Executable models of the platform functions are given
  further down and are used to run the program on concrete inputs.

  Strings are \<open>string\<close> (strings of bytes). JavaScript values of type \<open>any\<close> are the JSON
  values together with \<open>undefined\<close>; the representation of numbers is the type parameter
  \<open>'n\<close>. An object is the list of its own properties, each name once.
\<close>

datatype 'n jsval =
    JUndefined
  | JNull
  | JBool bool
  | JNumber 'n
  | JString string
  | JArray "'n jsval list"
  | JObject "(string \<times> 'n jsval) list"

text \<open>
  A thrown value: an instance of \<open>Error\<close> with its message (\<open>SyntaxError\<close> and
  \<open>TypeError\<close> are such instances), or any other value.
\<close>

datatype thrown = Error string | NotAnError

section \<open>types.ts\<close>

record PostmanHeader =
  key :: string
  header_value :: string
  header_name :: "string option"
  header_type :: "string option"

record PostmanBody =
  mode :: string
  raw :: string

text \<open>\<open>url: string | { raw: string }\<close>. The field \<open>method\<close> of a request is written \<open>request_method\<close>.\<close>

datatype PostmanUrl = UrlString string | UrlObject string

record PostmanRequest =
  request_method :: string
  header :: "PostmanHeader list"
  body :: PostmanBody
  url :: PostmanUrl

text \<open>The field \<open>_id\<close> is written \<open>item_id\<close>, the field \<open>response\<close> \<open>item_response\<close>.\<close>

record 'n PostmanItem =
  name :: string
  request :: PostmanRequest
  item_response :: "'n jsval list"
  item_id :: "string option"

record PostmanInfo =
  postman_id :: string
  info_name :: string
  schema :: string

record 'n PostmanCollection =
  info :: PostmanInfo
  item :: "'n PostmanItem list"

section \<open>App.tsx: the state\<close>

record 'n MockResponse =
  status :: nat
  data :: "'n jsval"
  time :: int

text \<open>
  The nine \<open>useState\<close> cells of \<open>App\<close>. \<open>null\<close> is \<open>None\<close>; \<open>geminiResponse\<close> is
  declared \<open>string | null\<close> but is written with a value of type \<open>any\<close>, so it holds a
  JavaScript value (\<open>JNull\<close> for \<open>null\<close>).
\<close>

record 'n App =
  collection :: "'n PostmanCollection option"
  selectedItemId :: "int option"
  searchQuery :: string
  isUploading :: bool
  response :: "'n MockResponse option"
  isSending :: bool
  geminiResponse :: "'n jsval"
  isLoadingGemini :: bool
  geminiError :: "string option"

definition App_init :: "'n App" where
  "App_init =
     \<lparr>collection = None, selectedItemId = None, searchQuery = [], isUploading = False,
      response = None, isSending = False, geminiResponse = JNull,
      isLoadingGemini = False, geminiError = None\<rparr>"

section \<open>Library functions the code uses\<close>

text \<open>\<open>xs[i]\<close>: \<open>undefined\<close> (here \<open>None\<close>) outside the array.\<close>

definition at_index :: "'a list \<Rightarrow> int \<Rightarrow> 'a option" where
  "at_index xs i = (if 0 \<le> i \<and> i < int (length xs) then Some (xs ! nat i) else None)"

text \<open>\<open>Array.prototype.findIndex\<close>: the first index whose element satisfies \<open>p\<close>, or -1.\<close>

fun findIndex_from :: "int \<Rightarrow> ('a \<Rightarrow> bool) \<Rightarrow> 'a list \<Rightarrow> int" where
  "findIndex_from k p [] = - 1"
| "findIndex_from k p (x # xs) = (if p x then k else findIndex_from (k + 1) p xs)"

definition findIndex :: "('a \<Rightarrow> bool) \<Rightarrow> 'a list \<Rightarrow> int" where
  "findIndex p xs = findIndex_from 0 p xs"

text \<open>\<open>Array.prototype.map\<close> with a callback that takes the element and its index.\<close>

fun map_index_from :: "nat \<Rightarrow> ('a \<Rightarrow> nat \<Rightarrow> 'b) \<Rightarrow> 'a list \<Rightarrow> 'b list" where
  "map_index_from k f [] = []"
| "map_index_from k f (x # xs) = f x k # map_index_from (Suc k) f xs"

definition map_index :: "('a \<Rightarrow> nat \<Rightarrow> 'b) \<Rightarrow> 'a list \<Rightarrow> 'b list" where
  "map_index f xs = map_index_from 0 f xs"

text \<open>\<open>String.prototype.includes\<close>: \<open>q\<close> occurs in \<open>s\<close> as a contiguous substring.\<close>

fun starts_with :: "string \<Rightarrow> string \<Rightarrow> bool" where
  "starts_with s [] = True"
| "starts_with [] (c # q) = False"
| "starts_with (d # s) (c # q) = (d = c \<and> starts_with s q)"

fun String_includes :: "string \<Rightarrow> string \<Rightarrow> bool" where
  "String_includes [] q = (q = [])"
| "String_includes (c # s) q = (starts_with (c # s) q \<or> String_includes s q)"

text \<open>The decimal digits of an array index or a status code, as a template literal prints them.\<close>

definition digit_char :: "nat \<Rightarrow> char" where
  "digit_char d = ''0123456789'' ! d"

fun Number_toString :: "nat \<Rightarrow> string" where
  "Number_toString n =
     (if n < 10 then [digit_char n] else Number_toString (n div 10) @ [digit_char (n mod 10)])"

declare Number_toString.simps [simp del]

section \<open>App.tsx: the operations\<close>

subsection \<open>handleFileUpload\<close>

text \<open>
  \<open>handleFileUpload\<close> returns at once when no file was chosen; otherwise it raises the
  busy flag and starts reading. The import itself is the reader's \<open>onload\<close> callback.
\<close>

definition handleFileUpload :: "bool \<Rightarrow> 'n App \<Rightarrow> 'n App" where
  "handleFileUpload has_file s = (if \<not> has_file then s else s\<lparr>isUploading := True\<rparr>)"

definition enrich :: "'n PostmanItem \<Rightarrow> nat \<Rightarrow> 'n PostmanItem" where
  "enrich it index = it\<lparr>item_id := Some (Number_toString index @ ''-'' @ name it)\<rparr>"

definition enrichedItem :: "'n PostmanCollection \<Rightarrow> 'n PostmanItem list" where
  "enrichedItem json = map_index enrich (item json)"

text \<open>
  \<open>parse\<close> is \<open>JSON.parse\<close> at the asserted type \<open>PostmanCollection\<close>: \<open>None\<close> when
  it throws its \<open>SyntaxError\<close>. The second component of the result lists the alerts shown.
\<close>

definition reader_onload ::
  "(string \<Rightarrow> 'n PostmanCollection option) \<Rightarrow> string \<Rightarrow> 'n App \<Rightarrow> 'n App \<times> string list" where
  "reader_onload parse contents s =
     (case parse contents of
        Some json \<Rightarrow>
          (s\<lparr>collection := Some (json\<lparr>item := enrichedItem json\<rparr>),
             selectedItemId := Some 0,
             isUploading := False\<rparr>, [])
      | None \<Rightarrow> (s\<lparr>isUploading := False\<rparr>, [''Invalid Postman Collection JSON'']))"

text \<open>A whole import: the change handler followed by the reader's callback.\<close>

definition import_file ::
  "(string \<Rightarrow> 'n PostmanCollection option) \<Rightarrow> string \<Rightarrow> 'n App \<Rightarrow> 'n App \<times> string list" where
  "import_file parse contents s = reader_onload parse contents (handleFileUpload True s)"

subsection \<open>selectedItem\<close>

definition selectedItem :: "'n App \<Rightarrow> 'n PostmanItem option" where
  "selectedItem s =
     (case (selectedItemId s, collection s) of
        (Some i, Some c) \<Rightarrow> at_index (item c) i
      | _ \<Rightarrow> None)"

subsection \<open>handleSendRequest\<close>

definition handleSendRequest_start :: "'n App \<Rightarrow> 'n App" where
  "handleSendRequest_start s = s\<lparr>isSending := True, response := None\<rparr>"

text \<open>
  The callback of the 800 ms timer. \<open>start\<close> is the clock when the send began, \<open>stamp\<close> is
  \<open>new Date().toISOString()\<close> and \<open>now\<close> is \<open>Date.now()\<close> when the callback runs.
\<close>

definition handleSendRequest_timeout ::
  "(string \<Rightarrow> 'n jsval option) \<Rightarrow> 'n PostmanItem \<Rightarrow> int \<Rightarrow> string \<Rightarrow> int \<Rightarrow> 'n App \<Rightarrow> 'n App" where
  "handleSendRequest_timeout parse it start stamp now s =
     (case parse (raw (body (request it))) of
        Some bodyParsed \<Rightarrow>
          s\<lparr>response := Some
               \<lparr>status = 200,
                data = JObject
                  [(''success'', JBool True),
                   (''msg'', JString ''Operation successful''),
                   (''received_data'', bodyParsed),
                   (''server_time'', JString stamp)],
                time = now - start\<rparr>,
            isSending := False\<rparr>
      | None \<Rightarrow>
          s\<lparr>response := Some
               \<lparr>status = 400,
                data = JObject [(''error'', JString ''Malformed JSON in request body'')],
                time = now - start\<rparr>,
            isSending := False\<rparr>)"

definition handleSendRequest ::
  "(string \<Rightarrow> 'n jsval option) \<Rightarrow> 'n PostmanItem \<Rightarrow> int \<Rightarrow> string \<Rightarrow> int \<Rightarrow> 'n App \<Rightarrow> 'n App" where
  "handleSendRequest parse it start stamp now s =
     handleSendRequest_timeout parse it start stamp now (handleSendRequest_start s)"

subsection \<open>filteredItems and the click on a row of the list\<close>

definition filteredItems ::
  "(string \<Rightarrow> string) \<Rightarrow> 'n PostmanCollection option \<Rightarrow> string \<Rightarrow> 'n PostmanItem list" where
  "filteredItems toLowerCase c q =
     (case c of
        None \<Rightarrow> []
      | Some col \<Rightarrow> filter (\<lambda>it. String_includes (toLowerCase (name it)) (toLowerCase q)) (item col))"

definition originalIndex :: "'n PostmanCollection \<Rightarrow> 'n PostmanItem \<Rightarrow> int" where
  "originalIndex col it = findIndex (\<lambda>i. name i = name it) (item col)"

text \<open>
  The \<open>onClick\<close> handler of the row at position \<open>idx\<close> of the filtered list. There is a
  row only when a collection is loaded and \<open>idx\<close> is a position of the filtered list.
\<close>

definition row_onClick :: "(string \<Rightarrow> string) \<Rightarrow> nat \<Rightarrow> 'n App \<Rightarrow> 'n App" where
  "row_onClick toLowerCase idx s =
     (case collection s of
        None \<Rightarrow> s
      | Some col \<Rightarrow>
          (let shown = filteredItems toLowerCase (Some col) (searchQuery s) in
           if idx < length shown
           then s\<lparr>selectedItemId := Some (originalIndex col (shown ! idx))\<rparr>
           else s))"

definition setSearchQuery :: "string \<Rightarrow> 'n App \<Rightarrow> 'n App" where
  "setSearchQuery q s = s\<lparr>searchQuery := q\<rparr>"

subsection \<open>callGeminiAPI and analyzeRequestWithGemini\<close>

text \<open>
  What \<open>fetch\<close> is called with, and what it resolves to. \<open>response_json\<close> is the outcome
  of \<open>response.json()\<close>: the decoded body, or the value it rejects with.
\<close>

record fetch_init =
  init_method :: string
  init_headers :: "(string \<times> string) list"
  init_body :: string

record 'n http_response =
  ok :: bool
  http_status :: nat
  statusText :: string
  response_json :: "thrown + 'n jsval"

type_synonym 'n fetch = "string \<Rightarrow> fetch_init \<Rightarrow> thrown + 'n http_response"

text \<open>
  Property access as the expression \<open>data.candidates[0].content.parts[0].text\<close> needs it.
  Reading a property of \<open>undefined\<close> or \<open>null\<close> throws a \<open>TypeError\<close> (the message is the
  engine's; V8's wording is used). An object yields its own property of that name or
  \<open>undefined\<close>; the names read here are no properties of arrays, strings, numbers or
  booleans, which yield \<open>undefined\<close>.
\<close>

definition cannot_read :: "string \<Rightarrow> string \<Rightarrow> thrown" where
  "cannot_read what k =
     Error (''Cannot read properties of '' @ what @ '' (reading '' @ [CHR 0x27] @ k @ [CHR 0x27] @ '')'')"

fun get_prop :: "'n jsval \<Rightarrow> string \<Rightarrow> thrown + 'n jsval" where
  "get_prop JUndefined k = Inl (cannot_read ''undefined'' k)"
| "get_prop JNull k = Inl (cannot_read ''null'' k)"
| "get_prop (JObject ps) k = (case map_of ps k of Some v \<Rightarrow> Inr v | None \<Rightarrow> Inr JUndefined)"
| "get_prop v k = Inr JUndefined"

text \<open>The element access \<open>v[0]\<close>; of a string it is the string of its first character.\<close>

fun get_first :: "'n jsval \<Rightarrow> thrown + 'n jsval" where
  "get_first JUndefined = Inl (cannot_read ''undefined'' ''0'')"
| "get_first JNull = Inl (cannot_read ''null'' ''0'')"
| "get_first (JArray []) = Inr JUndefined"
| "get_first (JArray (x # xs)) = Inr x"
| "get_first (JString []) = Inr JUndefined"
| "get_first (JString (c # cs)) = Inr (JString [c])"
| "get_first (JObject ps) = (case map_of ps ''0'' of Some v \<Rightarrow> Inr v | None \<Rightarrow> Inr JUndefined)"
| "get_first v = Inr JUndefined"

definition then_get :: "thrown + 'a \<Rightarrow> ('a \<Rightarrow> thrown + 'b) \<Rightarrow> thrown + 'b" where
  "then_get r f = (case r of Inl e \<Rightarrow> Inl e | Inr v \<Rightarrow> f v)"

definition geminiText_of :: "'n jsval \<Rightarrow> thrown + 'n jsval" where
  "geminiText_of d =
     then_get (then_get (then_get (then_get (then_get (get_prop d ''candidates'') get_first)
       (\<lambda>v. get_prop v ''content'')) (\<lambda>v. get_prop v ''parts'')) get_first)
       (\<lambda>v. get_prop v ''text'')"

definition gemini_url :: "string \<Rightarrow> string" where
  "gemini_url apiKey =
     ''https://generativelanguage.googleapis.com/v1beta/models/gemini-1.5-flash-latest:generateContent?key='' @ apiKey"

definition gemini_init :: "('n jsval \<Rightarrow> string) \<Rightarrow> string \<Rightarrow> fetch_init" where
  "gemini_init stringify prompt =
     \<lparr>init_method = ''POST'',
      init_headers = [(''Content-Type'', ''application/json'')],
      init_body = stringify
        (JObject [(''contents'',
           JArray [JObject [(''parts'', JArray [JObject [(''text'', JString prompt)]])]])])\<rparr>"

text \<open>
  The body of the \<open>try\<close> block: the text to show or the value thrown, together with the
  calls of \<open>fetch\<close> that were made. \<open>apiKey\<close> is \<open>process.env.GEMINI_API_KEY\<close>, \<open>None\<close>
  when it is not set; \<open>!apiKey\<close> also holds of the empty string.
\<close>

definition gemini_try ::
  "('n jsval \<Rightarrow> string) \<Rightarrow> 'n fetch \<Rightarrow> string option \<Rightarrow> string \<Rightarrow>
   (thrown + 'n jsval) \<times> (string \<times> fetch_init) list" where
  "gemini_try stringify fetch apiKey prompt =
     (case apiKey of
        None \<Rightarrow> (Inl (Error ''Please set your GEMINI_API_KEY in .env.local file''), [])
      | Some k \<Rightarrow>
          if k = [] \<or> k = ''PLACEHOLDER_API_KEY''
          then (Inl (Error ''Please set your GEMINI_API_KEY in .env.local file''), [])
          else
            (let call = (gemini_url k, gemini_init stringify prompt) in
             (case fetch (fst call) (snd call) of
                Inl e \<Rightarrow> Inl e
              | Inr r \<Rightarrow>
                  if \<not> ok r
                  then Inl (Error (''Gemini API error: '' @ Number_toString (http_status r)
                                   @ '' '' @ statusText r))
                  else then_get (response_json r) geminiText_of,
              [call])))"

definition callGeminiAPI_start :: "'n App \<Rightarrow> 'n App" where
  "callGeminiAPI_start s = s\<lparr>isLoadingGemini := True, geminiResponse := JNull, geminiError := None\<rparr>"

text \<open>The end of the \<open>try\<close> block or the \<open>catch\<close> clause, then the \<open>finally\<close> clause.\<close>

definition callGeminiAPI_settle :: "thrown + 'n jsval \<Rightarrow> 'n App \<Rightarrow> 'n App" where
  "callGeminiAPI_settle r s =
     (case r of
        Inr geminiText \<Rightarrow> s\<lparr>geminiResponse := geminiText, isLoadingGemini := False\<rparr>
      | Inl (Error message) \<Rightarrow> s\<lparr>geminiError := Some message, isLoadingGemini := False\<rparr>
      | Inl NotAnError \<Rightarrow>
          s\<lparr>geminiError := Some ''An error occurred while calling Gemini API'',
            isLoadingGemini := False\<rparr>)"

definition callGeminiAPI ::
  "('n jsval \<Rightarrow> string) \<Rightarrow> 'n fetch \<Rightarrow> string option \<Rightarrow> string \<Rightarrow> 'n App \<Rightarrow>
   'n App \<times> (string \<times> fetch_init) list" where
  "callGeminiAPI stringify fetch apiKey prompt s =
     (let (r, calls) = gemini_try stringify fetch apiKey prompt
      in (callGeminiAPI_settle r (callGeminiAPI_start s), calls))"

definition rawUrl :: "'n PostmanItem \<Rightarrow> string" where
  "rawUrl it = (case url (request it) of UrlString u \<Rightarrow> u | UrlObject r \<Rightarrow> r)"

text \<open>
  \<open>stringify_header\<close> is \<open>JSON.stringify(item.request.header, null, 2)\<close> at the type
  \<open>PostmanHeader[]\<close>.
\<close>

definition gemini_prompt :: "(PostmanHeader list \<Rightarrow> string) \<Rightarrow> 'n PostmanItem \<Rightarrow> string" where
  "gemini_prompt stringify_header it =
     ''Analyze this API request and provide insights:'' @ [CHR 0x0A, CHR 0x0A]
     @ ''Method: '' @ request_method (request it) @ [CHR 0x0A]
     @ ''URL: '' @ rawUrl it @ [CHR 0x0A, CHR 0x0A]
     @ ''Headers: '' @ stringify_header (header (request it)) @ [CHR 0x0A, CHR 0x0A]
     @ ''Body: '' @ raw (body (request it)) @ [CHR 0x0A, CHR 0x0A]
     @ ''Please provide:'' @ [CHR 0x0A]
     @ ''1. What this request does'' @ [CHR 0x0A]
     @ ''2. Potential improvements'' @ [CHR 0x0A]
     @ ''3. Security considerations''"

definition analyzeRequestWithGemini ::
  "(PostmanHeader list \<Rightarrow> string) \<Rightarrow> ('n jsval \<Rightarrow> string) \<Rightarrow> 'n fetch \<Rightarrow> string option \<Rightarrow>
   'n PostmanItem \<Rightarrow> 'n App \<Rightarrow> 'n App \<times> (string \<times> fetch_init) list" where
  "analyzeRequestWithGemini stringify_header stringify fetch apiKey it s =
     callGeminiAPI stringify fetch apiKey (gemini_prompt stringify_header it) s"

section \<open>components/RequestEditor.tsx\<close>

datatype tab = Params | Auth | Headers | Body

text \<open>The three \<open>useState\<close> cells of the component; its \<open>url\<close> cell is \<open>url_field\<close>.\<close>

record editor =
  activeTab :: tab
  copied :: bool
  url_field :: string

text \<open>The initial values of the cells, and the effect that depends on \<open>[item]\<close>.\<close>

definition RequestEditor_initial :: editor where
  "RequestEditor_initial = \<lparr>activeTab = Body, copied = False, url_field = []\<rparr>"

definition useEffect_item :: "'n PostmanItem \<Rightarrow> editor \<Rightarrow> editor" where
  "useEffect_item it e = e\<lparr>url_field := rawUrl it\<rparr>"

text \<open>
  Mounting runs the effect on the initial cells. When the component is rendered again
  with another \<open>item\<close>, React keeps the cells and runs the effect again.
\<close>

definition RequestEditor_mount :: "'n PostmanItem \<Rightarrow> editor" where
  "RequestEditor_mount it = useEffect_item it RequestEditor_initial"

definition RequestEditor_update :: "'n PostmanItem \<Rightarrow> editor \<Rightarrow> editor" where
  "RequestEditor_update it e = useEffect_item it e"

definition setActiveTab :: "tab \<Rightarrow> editor \<Rightarrow> editor" where
  "setActiveTab t e = e\<lparr>activeTab := t\<rparr>"

definition setUrl :: "string \<Rightarrow> editor \<Rightarrow> editor" where
  "setUrl u e = e\<lparr>url_field := u\<rparr>"

text \<open>
  \<open>handleCopy\<close>: the text written to the clipboard and the new cells; then the callback
  of its 2000 ms timer.
\<close>

definition handleCopy :: "'n PostmanItem \<Rightarrow> editor \<Rightarrow> string \<times> editor" where
  "handleCopy it e = (raw (body (request it)), e\<lparr>copied := True\<rparr>)"

definition handleCopy_timeout :: "editor \<Rightarrow> editor" where
  "handleCopy_timeout e = e\<lparr>copied := False\<rparr>"

text \<open>
  \<open>prettifyJson\<close>. \<open>parse\<close> is \<open>JSON.parse\<close> (\<open>None\<close> when it throws) and
  \<open>stringify v n\<close> is \<open>JSON.stringify(v, null, n)\<close>.
\<close>

definition prettifyJson ::
  "(string \<Rightarrow> 'n jsval option) \<Rightarrow> ('n jsval \<Rightarrow> nat \<Rightarrow> string) \<Rightarrow> string \<Rightarrow> string" where
  "prettifyJson parse stringify r =
     (case parse r of Some v \<Rightarrow> stringify v 4 | None \<Rightarrow> r)"

text \<open>
  The element \<open><RequestEditor item={selectedItem} .../>\<close> of \<open>App\<close> has no \<open>key\<close>. It is
  there while \<open>selectedItem\<close> is not null: the component is mounted when the element
  appears, keeps its cells while the element stays, and is unmounted when it goes.
  \<open>changed\<close> says whether \<open>item\<close> is another object than at the last render.
\<close>

definition render_editor :: "editor option \<Rightarrow> bool \<Rightarrow> 'n PostmanItem option \<Rightarrow> editor option" where
  "render_editor prev changed sel =
     (case sel of
        None \<Rightarrow> None
      | Some it \<Rightarrow>
          (case prev of
             None \<Rightarrow> Some (RequestEditor_mount it)
           | Some e \<Rightarrow> Some (if changed then RequestEditor_update it e else e)))"

section \<open>Executable models of the platform functions\<close>

text \<open>
  The functions of this section stand for the platform where the program is run on a
  concrete input. No theorem about all inputs depends on them: those quantify over the
  platform function.

  \<^item> \<open>JSON_parse\<close> accepts the JSON grammar (ECMA-404): a lexer that reads one character at
    a time, then a parser that reads one token at a time and keeps the open arrays and
    objects on a stack. \<open>None\<close> is the \<open>SyntaxError\<close>.
  \<^item> A string is a string of bytes (UTF-8); a Unicode escape (\<open>u\<close> and four hexadecimal digits) is decoded to the bytes
    of its code point.
  \<^item> A number is the decimal \<open>m * 10 ^ e\<close> of its literal, kept exactly as
    \<open>Decimal m e\<close> with no trailing zero in \<open>m\<close>. The platform rounds to a double; the
    two agree on what is printed for a literal of at most 15 significant digits whose
    value is in the range where the platform prints positional notation.
  \<^item> \<open>JSON_stringify v n\<close> is \<open>JSON.stringify(v, null, n)\<close>.
\<close>

subsection \<open>Characters\<close>

definition code :: "char \<Rightarrow> int" where
  "code c = of_char c"

definition is_ws :: "char \<Rightarrow> bool" where
  "is_ws c = (code c = 0x20 \<or> code c = 0x09 \<or> code c = 0x0A \<or> code c = 0x0D)"

definition is_digit :: "char \<Rightarrow> bool" where
  "is_digit c = (48 \<le> code c \<and> code c \<le> 57)"

definition is_lower :: "char \<Rightarrow> bool" where
  "is_lower c = (97 \<le> code c \<and> code c \<le> 122)"

definition is_upper :: "char \<Rightarrow> bool" where
  "is_upper c = (65 \<le> code c \<and> code c \<le> 90)"

text \<open>\<open>toLowerCase\<close> on the letters A to Z; every other byte is kept.\<close>

definition toLowerCase_ascii :: "string \<Rightarrow> string" where
  "toLowerCase_ascii s = map (\<lambda>c. if is_upper c then char_of (code c + 32) else c) s"

subsection \<open>Numbers\<close>

datatype decimal = Decimal int int

definition is_number_char :: "char \<Rightarrow> bool" where
  "is_number_char c =
     (is_digit c \<or> c = CHR ''-'' \<or> c = CHR ''+'' \<or> c = CHR ''.'' \<or> c = CHR ''e'' \<or> c = CHR ''E'')"

fun digits_value :: "int \<Rightarrow> string \<Rightarrow> int" where
  "digits_value acc [] = acc"
| "digits_value acc (c # cs) = digits_value (10 * acc + (code c - 48)) cs"

text \<open>The decimal of the digits \<open>ds\<close> times \<open>10 ^ e\<close>, without trailing zeros.\<close>

definition make_decimal :: "string \<Rightarrow> int \<Rightarrow> decimal" where
  "make_decimal ds e =
     (let z = length (takeWhile (\<lambda>c. c = CHR ''0'') (rev ds));
          sig = take (length ds - z) ds
      in if sig = [] then Decimal 0 0 else Decimal (digits_value 0 sig) (e + int z))"

definition negate :: "decimal \<Rightarrow> decimal" where
  "negate d = (case d of Decimal m e \<Rightarrow> Decimal (- m) e)"

definition read_exponent :: "string \<Rightarrow> int option" where
  "read_exponent cs =
     (case cs of
        [] \<Rightarrow> Some 0
      | c # r \<Rightarrow>
          if c = CHR ''e'' \<or> c = CHR ''E'' then
            (let neg = (case r of [] \<Rightarrow> False | s # _ \<Rightarrow> s = CHR ''-'');
                 ds = (case r of [] \<Rightarrow> [] | s # t \<Rightarrow> if s = CHR ''-'' \<or> s = CHR ''+'' then t else r)
             in if ds \<noteq> [] \<and> list_all is_digit ds
                then Some (if neg then - digits_value 0 ds else digits_value 0 ds)
                else None)
          else None)"

definition read_unsigned :: "string \<Rightarrow> decimal option" where
  "read_unsigned cs =
     (let ip = takeWhile is_digit cs; r1 = dropWhile is_digit cs;
          has_frac = (case r1 of [] \<Rightarrow> False | c # _ \<Rightarrow> c = CHR ''.'');
          fp = (if has_frac then takeWhile is_digit (tl r1) else []);
          r2 = (if has_frac then dropWhile is_digit (tl r1) else r1)
      in if ip = [] \<or> (length ip > 1 \<and> hd ip = CHR ''0'') \<or> (has_frac \<and> fp = []) then None
         else (case read_exponent r2 of
                 None \<Rightarrow> None
               | Some x \<Rightarrow> Some (make_decimal (ip @ fp) (x - int (length fp)))))"

definition read_number :: "string \<Rightarrow> decimal option" where
  "read_number cs =
     (case cs of
        [] \<Rightarrow> None
      | c # r \<Rightarrow> if c = CHR ''-'' then map_option negate (read_unsigned r) else read_unsigned cs)"

text \<open>Positional notation: the digits, with a point where the exponent is negative.\<close>

definition show_decimal :: "decimal \<Rightarrow> string" where
  "show_decimal d =
     (case d of Decimal m e \<Rightarrow>
        (if m < 0 then ''-'' else []) @
        (if 0 \<le> e then Number_toString (nat (\<bar>m\<bar> * 10 ^ nat e))
         else (let ds = Number_toString (nat \<bar>m\<bar>); k = nat (- e) in
               if k < length ds then take (length ds - k) ds @ ''.'' @ drop (length ds - k) ds
               else ''0.'' @ replicate (k - length ds) (CHR ''0'') @ ds)))"

subsection \<open>Strings of a JSON text\<close>

text \<open>
  The characters of a string literal: a byte of the text, or the code unit of a Unicode
  escape. Two escapes that form a surrogate pair are one code point.
\<close>

datatype piece = Raw char | Escaped int

definition utf8 :: "int \<Rightarrow> string" where
  "utf8 cp =
     (if cp < 0x80 then [char_of cp]
      else if cp < 0x800 then [char_of (0xC0 + cp div 64), char_of (0x80 + cp mod 64)]
      else if cp < 0x10000 then
        [char_of (0xE0 + cp div 4096), char_of (0x80 + (cp div 64) mod 64), char_of (0x80 + cp mod 64)]
      else
        [char_of (0xF0 + cp div 262144), char_of (0x80 + (cp div 4096) mod 64),
         char_of (0x80 + (cp div 64) mod 64), char_of (0x80 + cp mod 64)])"

definition is_high :: "int \<Rightarrow> bool" where
  "is_high u = (0xD800 \<le> u \<and> u < 0xDC00)"

definition is_low :: "int \<Rightarrow> bool" where
  "is_low u = (0xDC00 \<le> u \<and> u < 0xE000)"

fun encode_pieces :: "piece list \<Rightarrow> string" where
  "encode_pieces [] = []"
| "encode_pieces (Raw c # us) = c # encode_pieces us"
| "encode_pieces (Escaped h # Escaped l # us) =
     (if is_high h \<and> is_low l
      then utf8 (0x10000 + (h - 0xD800) * 0x400 + (l - 0xDC00)) @ encode_pieces us
      else utf8 h @ encode_pieces (Escaped l # us))"
| "encode_pieces (Escaped h # us) = utf8 h @ encode_pieces us"

definition hex_value :: "char \<Rightarrow> int option" where
  "hex_value c =
     (if is_digit c then Some (code c - 48)
      else if 97 \<le> code c \<and> code c \<le> 102 then Some (code c - 87)
      else if 65 \<le> code c \<and> code c \<le> 70 then Some (code c - 55)
      else None)"

subsection \<open>The lexer\<close>

datatype token =
    TLBrace | TRBrace | TLBracket | TRBracket | TColon | TComma
  | TString string | TNumber decimal | TTrue | TFalse | TNull

text \<open>
  The lexer is in one of six modes; \<open>step\<close> reads one character and gives the tokens that
  end there and the next mode, or \<open>None\<close> when the character cannot follow. A number is
  read to the first character that cannot be part of one and checked as a whole; so is a
  word (\<open>true\<close>, \<open>false\<close>, \<open>null\<close>).
\<close>

datatype mode =
    Idle
  | InString "piece list"
  | InEscape "piece list"
  | InHex "piece list" nat int
  | InNumber string
  | InLiteral string

definition step_idle :: "char \<Rightarrow> (token list \<times> mode) option" where
  "step_idle c =
     (if is_ws c then Some ([], Idle)
      else if c = CHR ''{'' then Some ([TLBrace], Idle)
      else if c = CHR ''}'' then Some ([TRBrace], Idle)
      else if c = CHR ''['' then Some ([TLBracket], Idle)
      else if c = CHR '']'' then Some ([TRBracket], Idle)
      else if c = CHR '':'' then Some ([TColon], Idle)
      else if c = CHR '','' then Some ([TComma], Idle)
      else if c = CHR 0x22 then Some ([], InString [])
      else if c = CHR ''-'' \<or> is_digit c then Some ([], InNumber [c])
      else if is_lower c then Some ([], InLiteral [c])
      else None)"

definition literal_token :: "string \<Rightarrow> token option" where
  "literal_token s =
     (if s = ''true'' then Some TTrue
      else if s = ''false'' then Some TFalse
      else if s = ''null'' then Some TNull
      else None)"

definition escape_char :: "char \<Rightarrow> char option" where
  "escape_char c =
     (if c = CHR 0x22 \<or> c = CHR 0x5C \<or> c = CHR ''/'' then Some c
      else if c = CHR ''b'' then Some (CHR 0x08)
      else if c = CHR ''f'' then Some (CHR 0x0C)
      else if c = CHR ''n'' then Some (CHR 0x0A)
      else if c = CHR ''r'' then Some (CHR 0x0D)
      else if c = CHR ''t'' then Some (CHR 0x09)
      else None)"

definition emit :: "token \<Rightarrow> (token list \<times> mode) option \<Rightarrow> (token list \<times> mode) option" where
  "emit t r = (case r of None \<Rightarrow> None | Some (ts, m) \<Rightarrow> Some (t # ts, m))"

fun step :: "mode \<Rightarrow> char \<Rightarrow> (token list \<times> mode) option" where
  "step Idle c = step_idle c"
| "step (InString us) c =
     (if c = CHR 0x22 then Some ([TString (encode_pieces (rev us))], Idle)
      else if c = CHR 0x5C then Some ([], InEscape us)
      else if code c < 0x20 then None
      else Some ([], InString (Raw c # us)))"
| "step (InEscape us) c =
     (if c = CHR ''u'' then Some ([], InHex us 0 0)
      else (case escape_char c of
              None \<Rightarrow> None
            | Some d \<Rightarrow> Some ([], InString (Raw d # us))))"
| "step (InHex us k v) c =
     (case hex_value c of
        None \<Rightarrow> None
      | Some d \<Rightarrow>
          if k = 3 then Some ([], InString (Escaped (16 * v + d) # us))
          else Some ([], InHex us (k + 1) (16 * v + d)))"
| "step (InNumber s) c =
     (if is_number_char c then Some ([], InNumber (c # s))
      else (case read_number (rev s) of
              None \<Rightarrow> None
            | Some d \<Rightarrow> emit (TNumber d) (step_idle c)))"
| "step (InLiteral s) c =
     (if is_lower c then Some ([], InLiteral (c # s))
      else (case literal_token (rev s) of
              None \<Rightarrow> None
            | Some t \<Rightarrow> emit t (step_idle c)))"

fun finish :: "mode \<Rightarrow> token list option" where
  "finish Idle = Some []"
| "finish (InNumber s) = map_option (\<lambda>d. [TNumber d]) (read_number (rev s))"
| "finish (InLiteral s) = map_option (\<lambda>t. [t]) (literal_token (rev s))"
| "finish m = None"

fun lex :: "mode \<Rightarrow> string \<Rightarrow> token list option" where
  "lex m [] = finish m"
| "lex m (c # cs) =
     (case step m c of
        None \<Rightarrow> None
      | Some (ts, m') \<Rightarrow> map_option (\<lambda>r. ts @ r) (lex m' cs))"

subsection \<open>The parser\<close>

text \<open>
  An object keeps its properties in the order the platform enumerates them: the keys that
  are array indices in ascending order, then the others in the order they were first
  defined. Defining a key again replaces its value where it stands.
\<close>

definition is_array_index :: "string \<Rightarrow> bool" where
  "is_array_index k =
     (k \<noteq> [] \<and> list_all is_digit k \<and> (k = ''0'' \<or> hd k \<noteq> CHR ''0'')
      \<and> digits_value 0 k < 4294967295)"

fun define_prop :: "string \<Rightarrow> 'n jsval \<Rightarrow> (string \<times> 'n jsval) list \<Rightarrow> (string \<times> 'n jsval) list" where
  "define_prop k v [] = [(k, v)]"
| "define_prop k v ((k', v') # ps) =
     (if k' = k then (k, v) # ps
      else if is_array_index k
              \<and> (\<not> is_array_index k' \<or> digits_value 0 k < digits_value 0 k')
           then (k, v) # (k', v') # ps
      else (k', v') # define_prop k v ps)"

text \<open>
  The stack holds, for every open array, its elements so far (last first) and, for every
  open object, its properties so far and the key whose value is being read.
\<close>

datatype frame =
    FArray "decimal jsval list"
  | FObject "(string \<times> decimal jsval) list" string

datatype pstate =
    SValue "frame list"
  | SArrayStart "frame list"
  | SObjectStart "frame list"
  | SKey "(string \<times> decimal jsval) list" "frame list"
  | SColon string "(string \<times> decimal jsval) list" "frame list"
  | SAfter "decimal jsval" "frame list"

fun value_start :: "frame list \<Rightarrow> token \<Rightarrow> pstate option" where
  "value_start st TLBrace = Some (SObjectStart st)"
| "value_start st TLBracket = Some (SArrayStart st)"
| "value_start st (TString s) = Some (SAfter (JString s) st)"
| "value_start st (TNumber d) = Some (SAfter (JNumber d) st)"
| "value_start st TTrue = Some (SAfter (JBool True) st)"
| "value_start st TFalse = Some (SAfter (JBool False) st)"
| "value_start st TNull = Some (SAfter JNull st)"
| "value_start st t = None"

fun pstep :: "pstate \<Rightarrow> token \<Rightarrow> pstate option" where
  "pstep (SValue st) t = value_start st t"
| "pstep (SArrayStart st) TRBracket = Some (SAfter (JArray []) st)"
| "pstep (SArrayStart st) t = value_start (FArray [] # st) t"
| "pstep (SObjectStart st) TRBrace = Some (SAfter (JObject []) st)"
| "pstep (SObjectStart st) (TString k) = Some (SColon k [] st)"
| "pstep (SKey ps st) (TString k) = Some (SColon k ps st)"
| "pstep (SColon k ps st) TColon = Some (SValue (FObject ps k # st))"
| "pstep (SAfter v (FArray vs # st)) TComma = Some (SValue (FArray (v # vs) # st))"
| "pstep (SAfter v (FArray vs # st)) TRBracket = Some (SAfter (JArray (rev (v # vs))) st)"
| "pstep (SAfter v (FObject ps k # st)) TComma = Some (SKey (define_prop k v ps) st)"
| "pstep (SAfter v (FObject ps k # st)) TRBrace = Some (SAfter (JObject (define_prop k v ps)) st)"
| "pstep s t = None"

fun parse_tokens :: "pstate \<Rightarrow> token list \<Rightarrow> decimal jsval option" where
  "parse_tokens (SAfter v []) [] = Some v"
| "parse_tokens s [] = None"
| "parse_tokens s (t # ts) = (case pstep s t of None \<Rightarrow> None | Some s' \<Rightarrow> parse_tokens s' ts)"

definition JSON_parse :: "string \<Rightarrow> decimal jsval option" where
  "JSON_parse s = (case lex Idle s of None \<Rightarrow> None | Some ts \<Rightarrow> parse_tokens (SValue []) ts)"

subsection \<open>JSON.stringify\<close>

text \<open>
  \<open>SerializeJSONProperty\<close> is \<open>None\<close> where the platform gives \<open>undefined\<close>: an
  \<open>undefined\<close> element of an array is printed as \<open>null\<close>, an \<open>undefined\<close> property is left
  out. \<open>JSON.stringify(undefined)\<close> is no string; \<open>JSON_stringify\<close>, typed as
  \<open>lib.es5.d.ts\<close> declares it, is the empty string there. No value that \<open>JSON_parse\<close>
  returns contains \<open>undefined\<close>.
\<close>

definition hex_digit :: "int \<Rightarrow> char" where
  "hex_digit d = ''0123456789abcdef'' ! nat d"

definition quote_char :: "char \<Rightarrow> string" where
  "quote_char c =
     (if c = CHR 0x08 then [CHR 0x5C, CHR ''b'']
      else if c = CHR 0x09 then [CHR 0x5C, CHR ''t'']
      else if c = CHR 0x0A then [CHR 0x5C, CHR ''n'']
      else if c = CHR 0x0C then [CHR 0x5C, CHR ''f'']
      else if c = CHR 0x0D then [CHR 0x5C, CHR ''r'']
      else if c = CHR 0x22 then [CHR 0x5C, CHR 0x22]
      else if c = CHR 0x5C then [CHR 0x5C, CHR 0x5C]
      else if code c < 0x20 then
        [CHR 0x5C, CHR ''u'', CHR ''0'', CHR ''0'', hex_digit (code c div 16), hex_digit (code c mod 16)]
      else [c])"

definition QuoteJSONString :: "string \<Rightarrow> string" where
  "QuoteJSONString s = [CHR 0x22] @ concat (map quote_char s) @ [CHR 0x22]"

fun join :: "string \<Rightarrow> string list \<Rightarrow> string" where
  "join sep [] = []"
| "join sep [x] = x"
| "join sep (x # y # ys) = x @ sep @ join sep (y # ys)"

definition wrap :: "char \<Rightarrow> char \<Rightarrow> nat \<Rightarrow> string \<Rightarrow> string list \<Rightarrow> string" where
  "wrap l r gap stepback partial =
     (if partial = [] then [l, r]
      else if gap = 0 then [l] @ join '','' partial @ [r]
      else (let indent = stepback @ replicate gap (CHR '' '') in
            [l, CHR 0x0A] @ indent @ join ([CHR '','', CHR 0x0A] @ indent) partial
            @ [CHR 0x0A] @ stepback @ [r]))"

fun SerializeJSONProperty :: "nat \<Rightarrow> string \<Rightarrow> decimal jsval \<Rightarrow> string option"
  and serialize_elements :: "nat \<Rightarrow> string \<Rightarrow> decimal jsval list \<Rightarrow> string list"
  and serialize_members :: "nat \<Rightarrow> string \<Rightarrow> (string \<times> decimal jsval) list \<Rightarrow> string list"
where
  "SerializeJSONProperty gap ind JUndefined = None"
| "SerializeJSONProperty gap ind JNull = Some ''null''"
| "SerializeJSONProperty gap ind (JBool b) = Some (if b then ''true'' else ''false'')"
| "SerializeJSONProperty gap ind (JNumber d) = Some (show_decimal d)"
| "SerializeJSONProperty gap ind (JString s) = Some (QuoteJSONString s)"
| "SerializeJSONProperty gap ind (JArray xs) =
     Some (wrap (CHR ''['') (CHR '']'') gap ind
             (serialize_elements gap (ind @ replicate gap (CHR '' '')) xs))"
| "SerializeJSONProperty gap ind (JObject ps) =
     Some (wrap (CHR ''{'') (CHR ''}'') gap ind
             (serialize_members gap (ind @ replicate gap (CHR '' '')) ps))"
| "serialize_elements gap ind [] = []"
| "serialize_elements gap ind (x # xs) =
     (case SerializeJSONProperty gap ind x of None \<Rightarrow> ''null'' | Some s \<Rightarrow> s)
     # serialize_elements gap ind xs"
| "serialize_members gap ind [] = []"
| "serialize_members gap ind (p # ps) =
     (case SerializeJSONProperty gap ind (snd p) of
        None \<Rightarrow> serialize_members gap ind ps
      | Some s \<Rightarrow>
          (QuoteJSONString (fst p) @ '':'' @ (if gap = 0 then [] else '' '') @ s)
          # serialize_members gap ind ps)"

definition JSON_stringify :: "decimal jsval \<Rightarrow> nat \<Rightarrow> string" where
  "JSON_stringify v space =
     (case SerializeJSONProperty (min space 10) [] v of Some s \<Rightarrow> s | None \<Rightarrow> [])"

subsection \<open>The type assertions\<close>

text \<open>
  \<open>JSON.parse(...) as PostmanCollection\<close>: the value read at the declared type. The
  functions \<open>as_...\<close> give the record a value denotes when it has the declared shape
  (an optional field may be missing; properties that the type does not declare are not
  part of the record), and \<open>None\<close> otherwise. \<open>JSON_parse_PostmanCollection\<close> stands for
  the parameter \<open>parse\<close> of \<open>reader_onload\<close> on a text that is no JSON (\<open>None\<close>) and on a
  text that denotes a collection; a JSON text of another shape is outside the typed model.
\<close>

definition field :: "(string \<times> 'n jsval) list \<Rightarrow> string \<Rightarrow> 'n jsval" where
  "field ps k = (case map_of ps k of Some v \<Rightarrow> v | None \<Rightarrow> JUndefined)"

fun as_string :: "'n jsval \<Rightarrow> string option" where
  "as_string (JString s) = Some s"
| "as_string v = None"

fun as_optional_string :: "'n jsval \<Rightarrow> string option option" where
  "as_optional_string JUndefined = Some None"
| "as_optional_string (JString s) = Some (Some s)"
| "as_optional_string v = None"

fun as_array :: "('n jsval \<Rightarrow> 'a option) \<Rightarrow> 'n jsval \<Rightarrow> 'a list option" where
  "as_array f (JArray xs) = those (map f xs)"
| "as_array f v = None"

fun as_PostmanHeader :: "'n jsval \<Rightarrow> PostmanHeader option" where
  "as_PostmanHeader (JObject ps) =
     (case (as_string (field ps ''key''), as_string (field ps ''value''),
            as_optional_string (field ps ''name''), as_optional_string (field ps ''type'')) of
        (Some k, Some v, Some n, Some t) \<Rightarrow>
          Some \<lparr>key = k, header_value = v, header_name = n, header_type = t\<rparr>
      | _ \<Rightarrow> None)"
| "as_PostmanHeader v = None"

fun as_PostmanBody :: "'n jsval \<Rightarrow> PostmanBody option" where
  "as_PostmanBody (JObject ps) =
     (case (as_string (field ps ''mode''), as_string (field ps ''raw'')) of
        (Some m, Some r) \<Rightarrow> Some \<lparr>mode = m, raw = r\<rparr>
      | _ \<Rightarrow> None)"
| "as_PostmanBody v = None"

fun as_PostmanUrl :: "'n jsval \<Rightarrow> PostmanUrl option" where
  "as_PostmanUrl (JString u) = Some (UrlString u)"
| "as_PostmanUrl (JObject ps) = map_option UrlObject (as_string (field ps ''raw''))"
| "as_PostmanUrl v = None"

fun as_PostmanRequest :: "'n jsval \<Rightarrow> PostmanRequest option" where
  "as_PostmanRequest (JObject ps) =
     (case (as_string (field ps ''method''), as_array as_PostmanHeader (field ps ''header''),
            as_PostmanBody (field ps ''body''), as_PostmanUrl (field ps ''url'')) of
        (Some m, Some h, Some b, Some u) \<Rightarrow> Some \<lparr>request_method = m, header = h, body = b, url = u\<rparr>
      | _ \<Rightarrow> None)"
| "as_PostmanRequest v = None"

fun as_PostmanItem :: "'n jsval \<Rightarrow> 'n PostmanItem option" where
  "as_PostmanItem (JObject ps) =
     (case (as_string (field ps ''name''), as_PostmanRequest (field ps ''request''),
            as_array Some (field ps ''response''), as_optional_string (field ps ''_id'')) of
        (Some n, Some r, Some rs, Some i) \<Rightarrow>
          Some \<lparr>name = n, request = r, item_response = rs, item_id = i\<rparr>
      | _ \<Rightarrow> None)"
| "as_PostmanItem v = None"

fun as_PostmanInfo :: "'n jsval \<Rightarrow> PostmanInfo option" where
  "as_PostmanInfo (JObject ps) =
     (case (as_string (field ps ''_postman_id''), as_string (field ps ''name''),
            as_string (field ps ''schema'')) of
        (Some i, Some n, Some sc) \<Rightarrow> Some \<lparr>postman_id = i, info_name = n, schema = sc\<rparr>
      | _ \<Rightarrow> None)"
| "as_PostmanInfo v = None"

fun as_PostmanCollection :: "'n jsval \<Rightarrow> 'n PostmanCollection option" where
  "as_PostmanCollection (JObject ps) =
     (case (as_PostmanInfo (field ps ''info''), as_array as_PostmanItem (field ps ''item'')) of
        (Some i, Some its) \<Rightarrow> Some \<lparr>info = i, item = its\<rparr>
      | _ \<Rightarrow> None)"
| "as_PostmanCollection v = None"

definition JSON_parse_PostmanCollection :: "string \<Rightarrow> decimal PostmanCollection option" where
  "JSON_parse_PostmanCollection s =
     (case JSON_parse s of None \<Rightarrow> None | Some v \<Rightarrow> as_PostmanCollection v)"

text \<open>\<open>JSON.stringify(header, null, 2)\<close> of headers with their properties in declaration order.\<close>

definition JSON_stringify_headers :: "PostmanHeader list \<Rightarrow> string" where
  "JSON_stringify_headers hs =
     JSON_stringify
       (JArray (map (\<lambda>h. JObject
          ([(''key'', JString (key h)), (''value'', JString (header_value h))]
           @ (case header_name h of None \<Rightarrow> [] | Some n \<Rightarrow> [(''name'', JString n)])
           @ (case header_type h of None \<Rightarrow> [] | Some t \<Rightarrow> [(''type'', JString t)]))) hs)) 2"

section \<open>The specification's filter\<close>



section \<open>Sample data\<close>

text \<open>A collection file with two requests, the first with an \<open>_id\<close> of its own.\<close>

definition sample_collection :: string where
  \<open>sample_collection =
     ''{"info":{"_postman_id":"c1","name":"Devices","schema":"v2.1.0"},'' @
     ''"item":[{"name":"Reboot","_id":"old","request":{"method":"POST","header":'' @
     ''[{"key":"Content-Type","value":"application/json"}],'' @
     ''"body":{"mode":"raw","raw":"{'' @ [CHR 0x5C] @ ''"cmd'' @ [CHR 0x5C] @ ''":1}"},'' @
     ''"url":"http://dev/reboot"},"response":[]},'' @
     ''{"name":"Status","request":{"method":"POST","header":[],'' @
     ''"body":{"mode":"raw","raw":"status?"},"url":{"raw":"http://dev/status"}},"response":[]}]}''\<close>

definition Reboot :: "decimal PostmanItem" where
  \<open>Reboot =
     \<lparr>name = ''Reboot'',
      request =
        \<lparr>request_method = ''POST'',
         header = [\<lparr>key = ''Content-Type'', header_value = ''application/json'',
                    header_name = None, header_type = None\<rparr>],
         body = \<lparr>mode = ''raw'', raw = ''{"cmd":1}''\<rparr>,
         url = UrlString ''http://dev/reboot''\<rparr>,
      item_response = [],
      item_id = Some ''old''\<rparr>\<close>

definition Status :: "decimal PostmanItem" where
  "Status =
     \<lparr>name = ''Status'',
      request =
        \<lparr>request_method = ''POST'', header = [],
         body = \<lparr>mode = ''raw'', raw = ''status?''\<rparr>,
         url = UrlObject ''http://dev/status''\<rparr>,
      item_response = [],
      item_id = None\<rparr>"

definition Devices :: "decimal PostmanCollection" where
  "Devices =
     \<lparr>info = \<lparr>postman_id = ''c1'', info_name = ''Devices'', schema = ''v2.1.0''\<rparr>,
      item = [Reboot, Status]\<rparr>"

definition loaded :: "decimal App" where
  "loaded = fst (import_file JSON_parse_PostmanCollection sample_collection App_init)"

definition candidates_reply :: "decimal jsval" where
  "candidates_reply =
     JObject [(''candidates'', JArray [JObject [(''content'',
       JObject [(''parts'', JArray [JObject [(''text'', JString ''Reboots the device.'')]])])]])]"

definition fetch_ok :: "decimal fetch" where
  "fetch_ok u i =
     Inr \<lparr>ok = True, http_status = 200, statusText = ''OK'', response_json = Inr candidates_reply\<rparr>"

definition fetch_forbidden :: "decimal fetch" where
  "fetch_forbidden u i =
     Inr \<lparr>ok = False, http_status = 403, statusText = ''Forbidden'',
          response_json = Inr (JObject [])\<rparr>"

text \<open>A request with a name and a raw body, and a collection to search in.\<close>

definition named :: "string \<Rightarrow> string \<Rightarrow> decimal PostmanItem" where
  "named n r =
     \<lparr>name = n,
      request = \<lparr>request_method = ''POST'', header = [],
                 body = \<lparr>mode = ''raw'', raw = r\<rparr>, url = UrlString ''http://dev''\<rparr>,
      item_response = [], item_id = None\<rparr>"


text \<open>A second collection file, to be imported over the first.\<close>

definition replacement_collection :: string where
  \<open>replacement_collection =
     ''{"info":{"_postman_id":"c3","name":"Other","schema":"v2.1.0"},'' @
     ''"item":[{"name":"Ping","request":{"method":"POST","header":[],'' @
     ''"body":{"mode":"raw","raw":"{}"},"url":"http://other/ping"},"response":[]}]}''\<close>

definition Ping :: "decimal PostmanItem" where
  \<open>Ping =
     \<lparr>name = ''Ping'',
      request = \<lparr>request_method = ''POST'', header = [],
                 body = \<lparr>mode = ''raw'', raw = ''{}''\<rparr>, url = UrlString ''http://other/ping''\<rparr>,
      item_response = [], item_id = None\<rparr>\<close>

definition Other :: "decimal PostmanCollection" where
  "Other =
     \<lparr>info = \<lparr>postman_id = ''c3'', info_name = ''Other'', schema = ''v2.1.0''\<rparr>,
      item = [Ping]\<rparr>"

text \<open>
  The state after the sample collection was imported, its first request was sent and
  then analysed with a key that is set.
\<close>

definition sent :: "decimal App" where
  "sent = handleSendRequest JSON_parse (Reboot\<lparr>item_id := Some ''0-Reboot''\<rparr>)
            1000 ''2026-01-01T00:00:01.800Z'' 1800 loaded"

definition analysed :: "decimal App" where
  "analysed = fst (callGeminiAPI (\<lambda>v. JSON_stringify v 0) fetch_ok (Some ''secret'') ''prompt'' sent)"

text \<open>A collection file with two requests of the same name.\<close>

definition twins_collection :: string where
  \<open>twins_collection =
     ''{"info":{"_postman_id":"c4","name":"Twins","schema":"v2.1.0"},'' @
     ''"item":[{"name":"Ping","request":{"method":"POST","header":[],'' @
     ''"body":{"mode":"raw","raw":"first"},"url":"http://dev"},"response":[]},'' @
     ''{"name":"Ping","request":{"method":"POST","header":[],'' @
     ''"body":{"mode":"raw","raw":"second"},"url":"http://dev"},"response":[]}]}''\<close>

definition twins :: "decimal App" where
  "twins = fst (import_file JSON_parse_PostmanCollection twins_collection App_init)"

section \<open>Properties\<close>

subsection \<open>The sample data\<close>

text \<open>What the JSON model accepts and refuses, and what it prints.\<close>

lemma JSON_parse_accepts:
  \<open>JSON_parse '' [1, -2.50, 3e2, true, false, null, "x", {"b": [], "a": {}, "b": 0}] ''
     = Some (JArray [JNumber (Decimal 1 0), JNumber (Decimal (- 25) (- 1)), JNumber (Decimal 3 2),
               JBool True, JBool False, JNull, JString ''x'',
               JObject [(''b'', JNumber (Decimal 0 0)), (''a'', JObject [])]])\<close>
  by code_simp

lemma JSON_parse_refuses:
  \<open>JSON_parse [] = None\<close>
  \<open>JSON_parse ''[1,]'' = None\<close>
  \<open>JSON_parse ''{"a":1,}'' = None\<close>
  \<open>JSON_parse ''{a:1}'' = None\<close>
  \<open>JSON_parse ''01'' = None\<close>
  \<open>JSON_parse ''1.'' = None\<close>
  \<open>JSON_parse ''"abc'' = None\<close>
  \<open>JSON_parse ''nul'' = None\<close>
  \<open>JSON_parse ''[1] 2'' = None\<close>
  \<open>JSON_parse ''undefined'' = None\<close>
  by code_simp+

lemma JSON_stringify_prints:
  \<open>JSON_stringify (JObject [(''a'', JArray [JNumber (Decimal 1 0), JNull]), (''b'', JObject [])]) 0
     = ''{"a":[1,null],"b":{}}''\<close>
  \<open>JSON_stringify (JArray [JNumber (Decimal (- 25) (- 1)), JString ''x'']) 2
     = ''['' @ [CHR 0x0A] @ ''  -2.5,'' @ [CHR 0x0A] @ ''  "x"'' @ [CHR 0x0A] @ '']''\<close>
  by code_simp+

lemma parse_sample_collection: "JSON_parse_PostmanCollection sample_collection = Some Devices"
  by code_simp

lemma parse_malformed: \<open>JSON_parse_PostmanCollection ''{"info": '' = None\<close>
  by code_simp

lemma Number_toString_small:
  "Number_toString 0 = ''0''" "Number_toString 1 = ''1''" "Number_toString (Suc 0) = ''1''"
  by (simp_all add: Number_toString.simps digit_char_def)

lemma loaded_eq:
  "loaded =
     \<lparr>collection = Some (Devices\<lparr>item := [Reboot\<lparr>item_id := Some ''0-Reboot''\<rparr>,
                                           Status\<lparr>item_id := Some ''1-Status''\<rparr>]\<rparr>),
      selectedItemId = Some 0, searchQuery = [], isUploading = False,
      response = None, isSending = False, geminiResponse = JNull,
      isLoadingGemini = False, geminiError = None\<rparr>"
  by (simp add: loaded_def import_file_def reader_onload_def handleFileUpload_def
      parse_sample_collection App_init_def enrichedItem_def map_index_def enrich_def
      Devices_def Reboot_def Status_def Number_toString_small)

lemma parse_replacement_collection:
  "JSON_parse_PostmanCollection replacement_collection = Some Other"
  by code_simp

lemma sent_eq:
  "sent = loaded\<lparr>response := Some
             \<lparr>status = 200,
              data = JObject
                [(''success'', JBool True),
                 (''msg'', JString ''Operation successful''),
                 (''received_data'', JObject [(''cmd'', JNumber (Decimal 1 0))]),
                 (''server_time'', JString ''2026-01-01T00:00:01.800Z'')],
              time = 800\<rparr>\<rparr>"
proof -
  have p: \<open>JSON_parse ''{"cmd":1}'' = Some (JObject [(''cmd'', JNumber (Decimal 1 0))])\<close>
    by code_simp
  show ?thesis
    by (simp add: sent_def handleSendRequest_def handleSendRequest_timeout_def
        handleSendRequest_start_def Reboot_def p loaded_eq)
qed

lemma geminiText_of_candidates_reply:
  "geminiText_of candidates_reply = Inr (JString ''Reboots the device.'')"
  by (simp add: geminiText_of_def candidates_reply_def then_get_def)

lemma analysed_eq: "analysed = sent\<lparr>geminiResponse := JString ''Reboots the device.''\<rparr>"
  by (simp add: analysed_def callGeminiAPI_def gemini_try_def fetch_ok_def then_get_def
      geminiText_of_candidates_reply callGeminiAPI_start_def callGeminiAPI_settle_def
      sent_eq loaded_eq)

lemma parse_twins_collection:
  "JSON_parse_PostmanCollection twins_collection
     = Some \<lparr>info = \<lparr>postman_id = ''c4'', info_name = ''Twins'', schema = ''v2.1.0''\<rparr>,
             item = [named ''Ping'' ''first'', named ''Ping'' ''second'']\<rparr>"
  by code_simp

lemma twins_eq:
  "twins =
     \<lparr>collection = Some
        \<lparr>info = \<lparr>postman_id = ''c4'', info_name = ''Twins'', schema = ''v2.1.0''\<rparr>,
         item = [(named ''Ping'' ''first'')\<lparr>item_id := Some ''0-Ping''\<rparr>,
                 (named ''Ping'' ''second'')\<lparr>item_id := Some ''1-Ping''\<rparr>]\<rparr>,
      selectedItemId = Some 0, searchQuery = [], isUploading = False,
      response = None, isSending = False, geminiResponse = JNull,
      isLoadingGemini = False, geminiError = None\<rparr>"
  by (simp add: twins_def import_file_def reader_onload_def handleFileUpload_def
      parse_twins_collection App_init_def enrichedItem_def map_index_def enrich_def
      named_def Number_toString_small)

subsection \<open>Decimal digits\<close>

text \<open>\<open>Number_toString\<close> prints the decimal digits of its argument: they read back as it.\<close>

lemma digit_char_code: "d < 10 \<Longrightarrow> code (digit_char d) = 48 + int d"
proof -
  assume "d < 10"
  then consider "d = 0" | "d = 1" | "d = 2" | "d = 3" | "d = 4" | "d = 5" | "d = 6" | "d = 7"
    | "d = 8" | "d = 9"
    by atomize_elim presburger
  then show ?thesis
    by cases (simp_all add: digit_char_def code_def)
qed

lemma digits_value_snoc:
  "digits_value acc (ds @ [c]) = 10 * digits_value acc ds + (code c - 48)"
  by (induction ds arbitrary: acc) simp_all

lemma Number_toString_reads_back: "digits_value 0 (Number_toString n) = int n"
proof (induction n rule: Number_toString.induct)
  case (1 n)
  show ?case
  proof (cases "n < 10")
    case True
    then show ?thesis
      by (subst Number_toString.simps) (simp add: digit_char_code)
  next
    case False
    with "1" have "digits_value 0 (Number_toString (n div 10)) = int (n div 10)"
      by simp
    with False show ?thesis
      by (subst Number_toString.simps)
         (simp add: digits_value_snoc digit_char_code zdiv_int zmod_int)
  qed
qed

subsection \<open>Substrings\<close>



lemma String_includes_empty: "String_includes s []"
  by (cases s) simp_all

subsection \<open>The mock send\<close>

text \<open>
  C1, as the code has it. The send resolves by whether \<open>request.body.raw\<close> parses as
  JSON: when it parses, the response has status 200 and the payload
  \<open>{success: true, msg: "Operation successful", received_data: <the parsed body>,
  server_time: <the time stamp>}\<close>; when it does not, the response has status 400 and
  the payload \<open>{error: "Malformed JSON in request body"}\<close>. The keys of the payload are
  \<open>received_data\<close> and \<open>server_time\<close>.
\<close>

theorem handleSendRequest_resolves:
  "(parse (raw (body (request it))) = Some bodyParsed \<longrightarrow>
      response (handleSendRequest parse it start stamp now s)
        = Some \<lparr>status = 200,
                data = JObject
                  [(''success'', JBool True),
                   (''msg'', JString ''Operation successful''),
                   (''received_data'', bodyParsed),
                   (''server_time'', JString stamp)],
                time = now - start\<rparr>)
   \<and> (parse (raw (body (request it))) = None \<longrightarrow>
      response (handleSendRequest parse it start stamp now s)
        = Some \<lparr>status = 400,
                data = JObject [(''error'', JString ''Malformed JSON in request body'')],
                time = now - start\<rparr>)
   \<and> \<not> isSending (handleSendRequest parse it start stamp now s)"
  by (simp add: handleSendRequest_def handleSendRequest_timeout_def
      handleSendRequest_start_def split: option.splits)

theorem handleSendRequest_resolves_witness:
  \<open>JSON_parse (raw (body (request Reboot))) = Some (JObject [(''cmd'', JNumber (Decimal 1 0))])
   \<and> response (handleSendRequest JSON_parse Reboot 1000 ''2026-01-01T00:00:01.800Z'' 1800 loaded)
       = Some \<lparr>status = 200,
               data = JObject
                 [(''success'', JBool True),
                  (''msg'', JString ''Operation successful''),
                  (''received_data'', JObject [(''cmd'', JNumber (Decimal 1 0))]),
                  (''server_time'', JString ''2026-01-01T00:00:01.800Z'')],
               time = 800\<rparr>
   \<and> JSON_parse (raw (body (request Status))) = None
   \<and> response (handleSendRequest JSON_parse Status 1000 ''2026-01-01T00:00:01.800Z'' 1800 loaded)
       = Some \<lparr>status = 400,
               data = JObject [(''error'', JString ''Malformed JSON in request body'')],
               time = 800\<rparr>\<close>
proof -
  have parsed: "JSON_parse (raw (body (request Reboot))) = Some (JObject [(''cmd'', JNumber (Decimal 1 0))])"
    by code_simp
  have refused: "JSON_parse (raw (body (request Status))) = None"
    by code_simp
  from handleSendRequest_resolves
         [of JSON_parse Reboot "JObject [(''cmd'', JNumber (Decimal 1 0))]" 1000
             "''2026-01-01T00:00:01.800Z''" 1800 loaded]
       handleSendRequest_resolves
         [of JSON_parse Status _ 1000 "''2026-01-01T00:00:01.800Z''" 1800 loaded]
       parsed refused
  show ?thesis by simp
qed

text \<open>
  C1 with the keys \<open>receivedData\<close> and \<open>serverTime\<close>, as the specification writes them,
  fails: the payload for the first sample request has \<open>received_data\<close> and
  \<open>server_time\<close> and differs from the payload with the specification's keys.
\<close>

theorem handleSendRequest_payload_keys:
  \<open>map_option data
      (response (handleSendRequest JSON_parse Reboot 1000 ''2026-01-01T00:00:01.800Z'' 1800 loaded))
     = Some (JObject
         [(''success'', JBool True),
          (''msg'', JString ''Operation successful''),
          (''received_data'', JObject [(''cmd'', JNumber (Decimal 1 0))]),
          (''server_time'', JString ''2026-01-01T00:00:01.800Z'')])
   \<and> map_option data
      (response (handleSendRequest JSON_parse Reboot 1000 ''2026-01-01T00:00:01.800Z'' 1800 loaded))
     \<noteq> Some (JObject
         [(''success'', JBool True),
          (''msg'', JString ''Operation successful''),
          (''receivedData'', JObject [(''cmd'', JNumber (Decimal 1 0))]),
          (''serverTime'', JString ''2026-01-01T00:00:01.800Z'')])\<close>
proof -
  have parsed: \<open>JSON_parse ''{"cmd":1}'' = Some (JObject [(''cmd'', JNumber (Decimal 1 0))])\<close>
    by code_simp
  show ?thesis
    by (simp add: handleSendRequest_def handleSendRequest_timeout_def
        handleSendRequest_start_def Reboot_def parsed)
qed

subsection \<open>Selecting a row of the filtered list\<close>

text \<open>
  The click selects the first request of the collection that has the name of the row.
  When the names of the collection are pairwise distinct, that is the request of the row.
\<close>

lemma findIndex_from_found:
  "\<exists>x\<in>set xs. p x \<Longrightarrow>
     findIndex_from k p xs = k + int (length (takeWhile (\<lambda>x. \<not> p x) xs))"
proof (induction xs arbitrary: k)
  case Nil
  then show ?case by simp
next
  case (Cons y ys)
  show ?case
  proof (cases "p y")
    case True
    then show ?thesis by simp
  next
    case False
    with Cons.prems have "\<exists>x\<in>set ys. p x" by simp
    from Cons.IH [OF this, of "k + 1"] False show ?thesis by simp
  qed
qed

lemma findIndex_from_none: "\<forall>x\<in>set xs. \<not> p x \<Longrightarrow> findIndex_from k p xs = - 1"
  by (induction xs arbitrary: k) auto

lemma first_of_key:
  "x \<in> set xs \<Longrightarrow> distinct (map f xs) \<Longrightarrow>
     length (takeWhile (\<lambda>y. f y \<noteq> f x) xs) < length xs
     \<and> xs ! length (takeWhile (\<lambda>y. f y \<noteq> f x) xs) = x"
proof (induction xs)
  case Nil
  then show ?case by simp
next
  case (Cons y ys)
  show ?case
  proof (cases "f y = f x")
    case True
    have "y = x"
    proof (rule ccontr)
      assume "y \<noteq> x"
      with Cons.prems(1) have "x \<in> set ys" by auto
      then have "f x \<in> f ` set ys" by (rule imageI)
      with True Cons.prems(2) show False by simp
    qed
    then show ?thesis by simp
  next
    case False
    with Cons.prems have "x \<in> set ys" and "distinct (map f ys)"
      by auto
    from Cons.IH [OF this] False show ?thesis by simp
  qed
qed

lemma row_onClick_distinct_names:
  assumes col: "collection s = Some col"
    and names: "distinct (map name (item col))"
    and idx: "idx < length (filteredItems toLowerCase (Some col) (searchQuery s))"
  shows "selectedItem (row_onClick toLowerCase idx s)
           = Some (filteredItems toLowerCase (Some col) (searchQuery s) ! idx)"
proof -
  let ?shown = "filteredItems toLowerCase (Some col) (searchQuery s)"
  let ?it = "?shown ! idx"
  let ?k = "length (takeWhile (\<lambda>i. name i \<noteq> name ?it) (item col))"
  have "?it \<in> set ?shown"
    using idx by simp
  then have member: "?it \<in> set (item col)"
    by (simp add: filteredItems_def)
  from first_of_key [OF member names]
  have k: "?k < length (item col)" and at: "item col ! ?k = ?it"
    by simp_all
  have "originalIndex col ?it = int ?k"
    using member findIndex_from_found [of "item col" "\<lambda>i. name i = name ?it" 0]
    by (auto simp: originalIndex_def findIndex_def)
  then have "row_onClick toLowerCase idx s = s\<lparr>selectedItemId := Some (int ?k)\<rparr>"
    using col idx by (simp add: row_onClick_def)
  then show ?thesis
    using col k at by (simp add: selectedItem_def at_index_def)
qed

text \<open>
  C2 at a collection with two requests of one name: the click on the second row of the
  unfiltered list selects index 0, the first request, not the request of the row.
\<close>

theorem row_onClick_same_name:
  "filteredItems toLowerCase_ascii (collection twins) (searchQuery twins)
     = [(named ''Ping'' ''first'')\<lparr>item_id := Some ''0-Ping''\<rparr>,
        (named ''Ping'' ''second'')\<lparr>item_id := Some ''1-Ping''\<rparr>]
   \<and> selectedItemId (row_onClick toLowerCase_ascii 1 twins) = Some 0
   \<and> selectedItem (row_onClick toLowerCase_ascii 1 twins)
       = Some ((named ''Ping'' ''first'')\<lparr>item_id := Some ''0-Ping''\<rparr>)
   \<and> (named ''Ping'' ''first'')\<lparr>item_id := Some ''0-Ping''\<rparr>
       \<noteq> (named ''Ping'' ''second'')\<lparr>item_id := Some ''1-Ping''\<rparr>"
proof -
  have shown: "filteredItems toLowerCase_ascii (collection twins) (searchQuery twins)
     = [(named ''Ping'' ''first'')\<lparr>item_id := Some ''0-Ping''\<rparr>,
        (named ''Ping'' ''second'')\<lparr>item_id := Some ''1-Ping''\<rparr>]"
    by (simp add: twins_eq filteredItems_def toLowerCase_ascii_def String_includes_empty)
  have click: "row_onClick toLowerCase_ascii 1 twins = twins\<lparr>selectedItemId := Some 0\<rparr>"
    using shown
    by (simp add: row_onClick_def twins_eq originalIndex_def findIndex_def named_def)
  show ?thesis
    by (simp only: shown click) (simp add: selectedItem_def at_index_def twins_eq named_def)
qed

subsection \<open>The active tab\<close>

text \<open>
  C3, as the code has it. The active tab is Body when the editor is mounted. When the
  editor is rendered with another request, the active tab is the one it was, whichever
  that is, and the URL field is taken from the new request.
\<close>

theorem activeTab_kept_across_requests:
  "activeTab (RequestEditor_mount it) = Body
   \<and> activeTab (RequestEditor_update it' e) = activeTab e
   \<and> url_field (RequestEditor_update it' e) = rawUrl it'
   \<and> map_option activeTab (render_editor None changed (Some it)) = Some Body
   \<and> map_option activeTab (render_editor (Some e) changed (Some it')) = Some (activeTab e)"
  by (simp add: RequestEditor_mount_def RequestEditor_update_def useEffect_item_def
      RequestEditor_initial_def render_editor_def)

theorem activeTab_kept_across_requests_witness:
  "RequestEditor_update Status (RequestEditor_mount Reboot)
     = \<lparr>activeTab = Body, copied = False, url_field = ''http://dev/status''\<rparr>"
proof -
  have "copied (RequestEditor_update Status (RequestEditor_mount Reboot)) = False"
    by (simp add: RequestEditor_mount_def RequestEditor_update_def useEffect_item_def
        RequestEditor_initial_def)
  moreover have "rawUrl Status = ''http://dev/status''"
    by (simp add: rawUrl_def Status_def)
  moreover note activeTab_kept_across_requests [of Reboot Status "RequestEditor_mount Reboot"]
  ultimately show ?thesis
    by (cases "RequestEditor_update Status (RequestEditor_mount Reboot)") simp
qed

text \<open>
  C3 with a reset to Body on every change of the request fails: with the Headers tab
  active, selecting the second request of the sample collection leaves the Headers tab
  active.
\<close>

theorem activeTab_not_reset:
  "selectedItem loaded = Some (Reboot\<lparr>item_id := Some ''0-Reboot''\<rparr>)
   \<and> selectedItem (row_onClick toLowerCase_ascii 1 loaded) = Some (Status\<lparr>item_id := Some ''1-Status''\<rparr>)
   \<and> render_editor
        (Some (setActiveTab Headers (RequestEditor_mount (Reboot\<lparr>item_id := Some ''0-Reboot''\<rparr>))))
        True (selectedItem (row_onClick toLowerCase_ascii 1 loaded))
       = Some \<lparr>activeTab = Headers, copied = False, url_field = ''http://dev/status''\<rparr>
   \<and> activeTab (RequestEditor_update Status (setActiveTab Headers (RequestEditor_mount Reboot))) \<noteq> Body"
proof -
  have shown: "filteredItems toLowerCase_ascii (collection loaded) (searchQuery loaded)
                 = [Reboot\<lparr>item_id := Some ''0-Reboot''\<rparr>, Status\<lparr>item_id := Some ''1-Status''\<rparr>]"
    by (simp add: loaded_eq filteredItems_def toLowerCase_ascii_def String_includes_empty)
  have click: "row_onClick toLowerCase_ascii 1 loaded = loaded\<lparr>selectedItemId := Some 1\<rparr>"
    using shown
    by (simp add: row_onClick_def loaded_eq originalIndex_def findIndex_def
        Devices_def Reboot_def Status_def)
  show ?thesis
    by (simp only: click)
       (simp add: selectedItem_def at_index_def loaded_eq Devices_def
        render_editor_def RequestEditor_update_def RequestEditor_mount_def
        RequestEditor_initial_def useEffect_item_def setActiveTab_def rawUrl_def
        Status_def Reboot_def)
qed

subsection \<open>Import over earlier results\<close>

text \<open>
  C4, as the code has it. A successful import replaces the collection, selects index 0
  and lowers the busy flag; the mock response, the analysis text and the analysis error
  are what they were before the import.
\<close>

theorem import_replaces_collection_only:
  "parse contents = Some json \<Longrightarrow>
     import_file parse contents s
       = (s\<lparr>collection := Some (json\<lparr>item := enrichedItem json\<rparr>),
            selectedItemId := Some 0, isUploading := False\<rparr>, [])
     \<and> response (fst (import_file parse contents s)) = response s
     \<and> geminiResponse (fst (import_file parse contents s)) = geminiResponse s
     \<and> geminiError (fst (import_file parse contents s)) = geminiError s"
  by (simp add: import_file_def reader_onload_def handleFileUpload_def)

theorem import_replaces_collection_only_witness:
  "fst (import_file JSON_parse_PostmanCollection replacement_collection analysed)
     = analysed\<lparr>collection := Some (Other\<lparr>item := [Ping\<lparr>item_id := Some ''0-Ping''\<rparr>]\<rparr>)\<rparr>"
proof -
  have "enrichedItem Other = [Ping\<lparr>item_id := Some ''0-Ping''\<rparr>]"
    by (simp add: enrichedItem_def map_index_def enrich_def Other_def Ping_def Number_toString_small)
  with import_replaces_collection_only
         [of JSON_parse_PostmanCollection replacement_collection Other analysed]
       parse_replacement_collection
  show ?thesis
    by (simp add: analysed_eq sent_eq loaded_eq)
qed

text \<open>
  C4 with the results cleared by the import fails: after the first request of the sample
  collection was sent and analysed, importing the second collection leaves the response
  and the analysis text of the first in the state.
\<close>

theorem import_keeps_stale_results:
  "collection (fst (import_file JSON_parse_PostmanCollection replacement_collection analysed))
     = Some (Other\<lparr>item := [Ping\<lparr>item_id := Some ''0-Ping''\<rparr>]\<rparr>)
   \<and> response (fst (import_file JSON_parse_PostmanCollection replacement_collection analysed)) \<noteq> None
   \<and> geminiResponse (fst (import_file JSON_parse_PostmanCollection replacement_collection analysed))
       = JString ''Reboots the device.''"
  by (simp add: import_file_def reader_onload_def handleFileUpload_def
      parse_replacement_collection analysed_eq sent_eq loaded_eq
      enrichedItem_def map_index_def enrich_def Other_def Ping_def Number_toString_small)

subsection \<open>Identifiers assigned by the import\<close>

lemma length_map_index_from: "length (map_index_from k f xs) = length xs"
  by (induction xs arbitrary: k) simp_all

lemma nth_map_index_from:
  "i < length xs \<Longrightarrow> map_index_from k f xs ! i = f (xs ! i) (k + i)"
proof (induction xs arbitrary: k i)
  case Nil
  then show ?case by simp
next
  case (Cons x xs)
  show ?case
  proof (cases i)
    case 0
    then show ?thesis by simp
  next
    case (Suc j)
    with Cons.prems have "j < length xs" by simp
    from Cons.IH [OF this, of "Suc k"] Suc show ?thesis by simp
  qed
qed

lemma length_enrichedItem: "length (enrichedItem json) = length (item json)"
  by (simp add: enrichedItem_def map_index_def length_map_index_from)

lemma nth_enrichedItem:
  "i < length (item json) \<Longrightarrow>
     enrichedItem json ! i
       = (item json ! i)\<lparr>item_id := Some (Number_toString i @ ''-'' @ name (item json ! i))\<rparr>"
  by (simp add: enrichedItem_def map_index_def nth_map_index_from enrich_def)

text \<open>
  C5. When the file parses to a collection of N requests, the imported collection has N
  requests, and its i-th request is the i-th request of the file with its \<open>_id\<close> set to
  the decimal digits of i, a hyphen and the name of the request, whatever \<open>_id\<close> the file
  gave it. The header of the collection is kept.
\<close>

theorem import_assigns_ids:
  "parse contents = Some json \<Longrightarrow>
     (\<exists>c. collection (fst (import_file parse contents s)) = Some c
          \<and> info c = info json
          \<and> length (item c) = length (item json)
          \<and> (\<forall>i < length (item json).
                item_id (item c ! i) = Some (Number_toString i @ ''-'' @ name (item json ! i))
                \<and> item c ! i
                    = (item json ! i)\<lparr>item_id := Some (Number_toString i @ ''-'' @ name (item json ! i))\<rparr>))"
  by (simp add: import_file_def reader_onload_def handleFileUpload_def
      length_enrichedItem nth_enrichedItem)

theorem import_assigns_ids_witness:
  "map_option (\<lambda>c. map item_id (item c))
     (collection (fst (import_file JSON_parse_PostmanCollection sample_collection App_init)))
     = Some [Some ''0-Reboot'', Some ''1-Status'']
   \<and> map item_id (item Devices) = [Some ''old'', None]
   \<and> map_option (\<lambda>c. map name (item c))
     (collection (fst (import_file JSON_parse_PostmanCollection sample_collection App_init)))
     = Some [''Reboot'', ''Status'']"
proof -
  from import_assigns_ids [of JSON_parse_PostmanCollection sample_collection Devices App_init]
    parse_sample_collection
  obtain c where c: "collection (fst (import_file JSON_parse_PostmanCollection sample_collection App_init)) = Some c"
    and len: "length (item c) = length (item Devices)"
    and ids: "\<forall>i < length (item Devices).
                item c ! i = (item Devices ! i)\<lparr>item_id := Some (Number_toString i @ ''-'' @ name (item Devices ! i))\<rparr>"
    by blast
  have two: "length (item c) = 2"
    using len by (simp add: Devices_def)
  have "item c ! 0 = Reboot\<lparr>item_id := Some ''0-Reboot''\<rparr>"
    using ids by (simp add: Devices_def Reboot_def Number_toString_small)
  moreover have "item c ! 1 = Status\<lparr>item_id := Some ''1-Status''\<rparr>"
    using ids by (simp add: Devices_def Status_def Number_toString_small)
  ultimately have "item c = [Reboot\<lparr>item_id := Some ''0-Reboot''\<rparr>, Status\<lparr>item_id := Some ''1-Status''\<rparr>]"
    using two by (auto simp: list_eq_iff_nth_eq less_Suc_eq numeral_2_eq_2)
  with c show ?thesis
    by (simp add: Devices_def Reboot_def Status_def)
qed

subsection \<open>The filter\<close>



subsection \<open>prettifyJson\<close>

text \<open>
  C7. When the text parses, \<open>prettifyJson\<close> is the value printed with an indentation of
  four; when it does not parse, it is the text itself, and applying \<open>prettifyJson\<close>
  again changes nothing. On \<open>{"a":1}\<close> the platform model prints the three lines
  \<open>{\<close>, four spaces and \<open>"a": 1\<close>, \<open>}\<close>; \<open>not json\<close> is returned as it is.
\<close>

theorem prettifyJson_spec:
  \<open>(parse r = Some v \<longrightarrow> prettifyJson parse stringify r = stringify v 4)
   \<and> (parse r = None \<longrightarrow>
        prettifyJson parse stringify r = r
        \<and> prettifyJson parse stringify (prettifyJson parse stringify r)
            = prettifyJson parse stringify r)
   \<and> prettifyJson JSON_parse JSON_stringify ''{"a":1}''
       = ''{'' @ [CHR 0x0A] @ ''    "a": 1'' @ [CHR 0x0A] @ ''}''
   \<and> prettifyJson JSON_parse JSON_stringify ''not json'' = ''not json''\<close>
proof -
  have parsed: \<open>JSON_parse ''{"a":1}'' = Some (JObject [(''a'', JNumber (Decimal 1 0))])\<close>
    by code_simp
  have printed: \<open>JSON_stringify (JObject [(''a'', JNumber (Decimal 1 0))]) 4
                   = ''{'' @ [CHR 0x0A] @ ''    "a": 1'' @ [CHR 0x0A] @ ''}''\<close>
    by code_simp
  have refused: "JSON_parse ''not json'' = None"
    by code_simp
  show ?thesis
    by (simp add: prettifyJson_def parsed printed refused)
qed

theorem prettifyJson_spec_witness:
  \<open>JSON_parse ''[1, {"b": []}]'' = Some (JArray [JNumber (Decimal 1 0), JObject [(''b'', JArray [])]])
   \<and> prettifyJson JSON_parse JSON_stringify ''[1, {"b": []}]''
       = JSON_stringify (JArray [JNumber (Decimal 1 0), JObject [(''b'', JArray [])]]) 4
   \<and> JSON_parse ''{"a":'' = None
   \<and> prettifyJson JSON_parse JSON_stringify ''{"a":'' = ''{"a":''\<close>
proof -
  have parsed: \<open>JSON_parse ''[1, {"b": []}]''
                  = Some (JArray [JNumber (Decimal 1 0), JObject [(''b'', JArray [])]])\<close>
    by code_simp
  have refused: \<open>JSON_parse ''{"a":'' = None\<close>
    by code_simp
  from prettifyJson_spec [of JSON_parse \<open>''[1, {"b": []}]''\<close> _ JSON_stringify] parsed
    prettifyJson_spec [of JSON_parse \<open>''{"a":''\<close> _ JSON_stringify] refused
  show ?thesis by simp
qed

subsection \<open>Import of a malformed file\<close>

text \<open>
  C8. When the contents of the file are not valid JSON, the import shows the alert and
  leaves the state as it was: the collection, the selection and every other cell are
  unchanged, and only the busy flag of the upload is lowered again. From a state in which
  no upload is under way the state after the import is the state before it.
\<close>

theorem import_malformed_keeps_state:
  "parse contents = None \<Longrightarrow>
     import_file parse contents s
       = (s\<lparr>isUploading := False\<rparr>, [''Invalid Postman Collection JSON''])
     \<and> collection (fst (import_file parse contents s)) = collection s
     \<and> selectedItemId (fst (import_file parse contents s)) = selectedItemId s
     \<and> (\<not> isUploading s \<longrightarrow> fst (import_file parse contents s) = s)"
  by (simp add: import_file_def reader_onload_def handleFileUpload_def)

theorem import_malformed_keeps_state_witness:
  \<open>import_file JSON_parse_PostmanCollection ''{"info": '' loaded
     = (loaded, [''Invalid Postman Collection JSON''])
   \<and> collection loaded \<noteq> None \<and> selectedItemId loaded = Some 0\<close>
proof -
  have idle: "\<not> isUploading loaded"
    by (simp add: loaded_eq)
  have loaded_state: "collection loaded \<noteq> None \<and> selectedItemId loaded = Some 0"
    by (simp add: loaded_eq)
  from import_malformed_keeps_state [of JSON_parse_PostmanCollection _ loaded] parse_malformed idle
  have "import_file JSON_parse_PostmanCollection ''{\"info\": '' loaded
          = (loaded\<lparr>isUploading := False\<rparr>, [''Invalid Postman Collection JSON''])"
    and "fst (import_file JSON_parse_PostmanCollection ''{\"info\": '' loaded) = loaded"
    by simp_all
  with loaded_state show ?thesis
    by (metis fst_conv)
qed

subsection \<open>Analysis without a credential\<close>

text \<open>
  C9. When the API key is not set or is the placeholder, the analysis of any request ends
  at once with the message that asks for the key as its error, with no text result, and
  \<open>fetch\<close> is not called.
\<close>

theorem analyze_without_credential:
  "apiKey = None \<or> apiKey = Some ''PLACEHOLDER_API_KEY'' \<Longrightarrow>
     analyzeRequestWithGemini stringify_header stringify fetch apiKey it s
       = (s\<lparr>isLoadingGemini := False, geminiResponse := JNull,
            geminiError := Some ''Please set your GEMINI_API_KEY in .env.local file''\<rparr>, [])"
  by (auto simp: analyzeRequestWithGemini_def callGeminiAPI_def gemini_try_def
      callGeminiAPI_start_def callGeminiAPI_settle_def)

theorem analyze_without_credential_witness:
  "analyzeRequestWithGemini JSON_stringify_headers (\<lambda>v. JSON_stringify v 0) fetch_ok None Reboot loaded
     = (loaded\<lparr>geminiError := Some ''Please set your GEMINI_API_KEY in .env.local file''\<rparr>, [])
   \<and> analyzeRequestWithGemini JSON_stringify_headers (\<lambda>v. JSON_stringify v 0) fetch_ok
        (Some ''PLACEHOLDER_API_KEY'') Reboot loaded
     = (loaded\<lparr>geminiError := Some ''Please set your GEMINI_API_KEY in .env.local file''\<rparr>, [])"
  using analyze_without_credential [of None JSON_stringify_headers "\<lambda>v. JSON_stringify v 0" fetch_ok Reboot loaded]
    analyze_without_credential [of "Some ''PLACEHOLDER_API_KEY''" JSON_stringify_headers "\<lambda>v. JSON_stringify v 0" fetch_ok Reboot loaded]
  by (simp add: loaded_eq)

subsection \<open>One result per analysis\<close>

text \<open>
  Between the start of an analysis and its end other handlers may run. None of them writes
  the text or the error of the analysis, and the end of an analysis that finds both
  cleared leaves at most one of them present.
\<close>

lemma other_handlers_keep_analysis:
  "geminiResponse (fst (import_file parse contents s)) = geminiResponse s"
  "geminiError (fst (import_file parse contents s)) = geminiError s"
  "geminiResponse (handleSendRequest_start s) = geminiResponse s"
  "geminiError (handleSendRequest_start s) = geminiError s"
  "geminiResponse (handleSendRequest_timeout parse' it start stamp now s) = geminiResponse s"
  "geminiError (handleSendRequest_timeout parse' it start stamp now s) = geminiError s"
  "geminiResponse (row_onClick toLowerCase idx s) = geminiResponse s"
  "geminiError (row_onClick toLowerCase idx s) = geminiError s"
  "geminiResponse (setSearchQuery q s) = geminiResponse s"
  "geminiError (setSearchQuery q s) = geminiError s"
  by (simp_all add: import_file_def reader_onload_def handleFileUpload_def
      handleSendRequest_start_def handleSendRequest_timeout_def row_onClick_def
      setSearchQuery_def Let_def split: option.splits)

lemma callGeminiAPI_settle_one_result:
  "geminiResponse s = JNull \<Longrightarrow> geminiError s = None \<Longrightarrow>
     \<not> (geminiResponse (callGeminiAPI_settle r s) \<noteq> JNull
        \<and> geminiError (callGeminiAPI_settle r s) \<noteq> None)"
  by (simp add: callGeminiAPI_settle_def split: sum.splits thrown.splits)

text \<open>
  C10. An invocation of the analysis first clears the text and the error. When the
  \<open>try\<close> block ends with a text, the text is stored and the error stays cleared; when it
  throws, an error message is stored and the text stays cleared. So after the invocation
  the text and the error are never both present, and the busy flag is lowered.
\<close>

theorem callGeminiAPI_one_result:
  "geminiResponse (callGeminiAPI_start s) = JNull
   \<and> geminiError (callGeminiAPI_start s) = None
   \<and> (case fst (gemini_try stringify fetch apiKey prompt) of
         Inr geminiText \<Rightarrow>
           geminiResponse (fst (callGeminiAPI stringify fetch apiKey prompt s)) = geminiText
           \<and> geminiError (fst (callGeminiAPI stringify fetch apiKey prompt s)) = None
       | Inl e \<Rightarrow>
           geminiResponse (fst (callGeminiAPI stringify fetch apiKey prompt s)) = JNull
           \<and> geminiError (fst (callGeminiAPI stringify fetch apiKey prompt s)) \<noteq> None)
   \<and> \<not> (geminiResponse (fst (callGeminiAPI stringify fetch apiKey prompt s)) \<noteq> JNull
          \<and> geminiError (fst (callGeminiAPI stringify fetch apiKey prompt s)) \<noteq> None)
   \<and> \<not> isLoadingGemini (fst (callGeminiAPI stringify fetch apiKey prompt s))"
  by (cases "gemini_try stringify fetch apiKey prompt")
     (auto simp: callGeminiAPI_def callGeminiAPI_start_def callGeminiAPI_settle_def
           split: sum.splits thrown.splits)

theorem callGeminiAPI_one_result_witness:
  "geminiResponse analysed = JString ''Reboots the device.''
   \<and> geminiResponse
         (fst (callGeminiAPI (\<lambda>v. JSON_stringify v 0) fetch_forbidden (Some ''secret'') ''prompt'' analysed))
       = JNull
   \<and> geminiError
         (fst (callGeminiAPI (\<lambda>v. JSON_stringify v 0) fetch_forbidden (Some ''secret'') ''prompt'' analysed))
       = Some ''Gemini API error: 403 Forbidden''
   \<and> geminiResponse
         (fst (callGeminiAPI (\<lambda>v. JSON_stringify v 0) fetch_ok (Some ''secret'') ''prompt''
                (loaded\<lparr>geminiError := Some ''Failed to fetch''\<rparr>)))
       = JString ''Reboots the device.''
   \<and> geminiError
         (fst (callGeminiAPI (\<lambda>v. JSON_stringify v 0) fetch_ok (Some ''secret'') ''prompt''
                (loaded\<lparr>geminiError := Some ''Failed to fetch''\<rparr>)))
       = None"
proof -
  have refused:
    "fst (gemini_try (\<lambda>v. JSON_stringify v 0) fetch_forbidden (Some ''secret'') ''prompt'')
       = Inl (Error ''Gemini API error: 403 Forbidden'')"
    by (simp add: gemini_try_def fetch_forbidden_def Number_toString.simps digit_char_def)
  have answered:
    "fst (gemini_try (\<lambda>v. JSON_stringify v 0) fetch_ok (Some ''secret'') ''prompt'')
       = Inr (JString ''Reboots the device.'')"
    by (simp add: gemini_try_def fetch_ok_def then_get_def geminiText_of_candidates_reply)
  have message:
    "geminiError
       (fst (callGeminiAPI (\<lambda>v. JSON_stringify v 0) fetch_forbidden (Some ''secret'') ''prompt'' analysed))
     = Some ''Gemini API error: 403 Forbidden''"
    using refused
    by (simp add: callGeminiAPI_def callGeminiAPI_settle_def callGeminiAPI_start_def
        split_beta)
  have before: "geminiResponse analysed = JString ''Reboots the device.''"
    by (simp add: analysed_eq)
  from callGeminiAPI_one_result
         [where s = analysed and stringify = "\<lambda>v. JSON_stringify v 0"
            and fetch = fetch_forbidden and apiKey = "Some ''secret''" and prompt = "''prompt''"]
       callGeminiAPI_one_result
         [where s = "loaded\<lparr>geminiError := Some ''Failed to fetch''\<rparr>"
            and stringify = "\<lambda>v. JSON_stringify v 0"
            and fetch = fetch_ok and apiKey = "Some ''secret''" and prompt = "''prompt''"]
       refused answered message before
  show ?thesis by simp
qed

end
